theory Spec2Isabelle
  imports Complex_Main "HOL-Library.AList" "HOL-Library.Sublist"
begin

section \<open>The benchmark Timer of torch/utils/_benchmark/utils/timer.py\<close>

text \<open>
  A shallow embedding of the class \<open>Timer\<close>. Conventions:
  \<^item> Python floats are modelled as reals (\<^typ>\<open>real\<close>); NaN and infinite inputs are outside
    the model. Where the control flow of the source depends on float arithmetic, it is
    written out: the addition that accumulates \<open>total_time\<close> is a parameter
    (\<open>float_add\<close> below), and the divisions of the estimator raise, overflow and underflow
    as Python's do (\<open>py_div\<close>, \<open>py_div_int\<close>, \<open>np_div\<close> below).
  \<^item> Python integers are \<^typ>\<open>int\<close>.
  \<^item> Every callable the code is handed (the compiled \<open>timeit.Timer\<close>, the time-hook, the
    stop-hook, the callback) may have effects. Each takes a world \<open>'w\<close> and returns the new
    one; the code threads the world through its calls in program order. Each returns a
    result for every argument. The stop-hook is handed the list \<open>times\<close> itself, not a
    copy, so it also returns the list as it leaves it; the loop hands the list to no other
    callable, and the time-hook and the callback leave it as it is.
  \<^item> A \<open>raise\<close> is the value \<open>Inl e\<close> of a sum type.
  \<^item> A \<open>while\<close> loop that may run forever is a \<open>partial_function (option)\<close>: the value
    \<open>None\<close> means that the loop does not return.
  \<^item> The context manager \<open>common.set_torch_threads\<close> only sets and restores a thread count
    around the loops; it does not influence their control flow and is left out.
\<close>

subsection \<open>Errors\<close>

datatype error =
    ValueError string
  | NotImplementedError string
  | TypeError
  | ZeroDivisionError
  | OverflowError

subsection \<open>Objects, references and the environment mapping\<close>

text \<open>
  Python values are references to objects in a store. The store is a list of objects, an
  address is an index into it, and allocation appends. A \<open>dict\<close> is an association list
  from names to addresses in insertion order.
\<close>

type_synonym addr = nat

datatype pyobj =
    PyDict "(string \<times> addr) list"
  | PyList "addr list"
  | PyOther

type_synonym heap = "pyobj list"

definition alloc :: "pyobj \<Rightarrow> heap \<Rightarrow> addr \<times> heap" where
  "alloc ob h = (length h, h @ [ob])"

text \<open>The items of the dict at an address; anything else there is a \<open>TypeError\<close>.\<close>

definition dict_items :: "heap \<Rightarrow> addr \<Rightarrow> error + (string \<times> addr) list" where
  "dict_items h a =
     (if a < length h
      then (case h ! a of PyDict kvs \<Rightarrow> Inr kvs | _ \<Rightarrow> Inl TypeError)
      else Inl TypeError)"

text \<open>\<open>d[k]\<close>: the reference bound to \<open>k\<close> in the dict at \<open>d\<close>, if any.\<close>

definition dict_get :: "heap \<Rightarrow> addr \<Rightarrow> string \<Rightarrow> addr option" where
  "dict_get h d k = (case dict_items h d of Inl e \<Rightarrow> None | Inr kvs \<Rightarrow> map_of kvs k)"

text \<open>\<open>d[k] = v\<close>: rebinds \<open>k\<close> in place, or adds it at the end.\<close>

definition dict_setitem :: "addr \<Rightarrow> string \<Rightarrow> addr \<Rightarrow> heap \<Rightarrow> heap" where
  "dict_setitem d k v h =
     (case dict_items h d of Inl e \<Rightarrow> h | Inr kvs \<Rightarrow> h[d := PyDict (AList.update k v kvs)])"

text \<open>\<open>d.setdefault(k, v)\<close>: binds \<open>k\<close> only if it is not bound yet.\<close>

definition dict_setdefault :: "addr \<Rightarrow> string \<Rightarrow> addr \<Rightarrow> heap \<Rightarrow> heap" where
  "dict_setdefault d k v h =
     (case dict_get h d k of Some u \<Rightarrow> h | None \<Rightarrow> dict_setitem d k v h)"

text \<open>\<open>l.append(v)\<close> on the list object at \<open>l\<close>: a mutation of the object itself.\<close>

definition list_append :: "addr \<Rightarrow> addr \<Rightarrow> heap \<Rightarrow> heap" where
  "list_append l v h =
     (if l < length h
      then (case h ! l of PyList vs \<Rightarrow> h[l := PyList (vs @ [v])] | _ \<Rightarrow> h)
      else h)"

subsection \<open>Timer construction\<close>

text \<open>
  The fields \<open>self._stmt\<close>, \<open>self._label\<close>, ... of a Timer. \<open>self_globals\<close> is the mapping
  that \<open>__init__\<close> hands to \<open>timeit.Timer\<close>, which keeps it as the namespace of the
  timed statement.
\<close>

record Timer =
  self_stmt :: string
  self_label :: "string option"
  self_sub_label :: "string option"
  self_description :: "string option"
  self_env :: "string option"
  self_num_threads :: int
  self_globals :: addr

text \<open>The argument \<open>stmt\<close> is a \<open>str\<close> or some other object.\<close>

datatype pyarg = PyStr string | PyNonStr

text \<open>
  \<open>Timer.__init__\<close> (lines 27-54). \<open>globals\<close> is \<open>None\<close> or a reference to the caller's
  dict; \<open>torch\<close> is the address of the module object. \<open>globals or {}\<close> has the items of the
  caller's dict (none when it is \<open>None\<close> or empty), and \<open>dict(...)\<close> allocates a new dict
  object holding these items: the names and the references, not copies of the objects
  referred to. A \<open>globals\<close> that is not a dict is a \<open>TypeError\<close>. What \<open>timeit.Timer\<close>
  does with the statement and the mapping it is given (it compiles the statement and adds
  \<open>__builtins__\<close> to the mapping) belongs to the standard library and is not modelled.
\<close>

definition Timer_init ::
  "pyarg \<Rightarrow> addr option \<Rightarrow> string option \<Rightarrow> string option \<Rightarrow> string option \<Rightarrow> string option
     \<Rightarrow> int \<Rightarrow> addr \<Rightarrow> heap \<Rightarrow> error + Timer \<times> heap" where
  "Timer_init stmt globals label sub_label description env num_threads torch h =
     (case stmt of
        PyNonStr \<Rightarrow> Inl (ValueError ''Currently only a `str` stmt is supported.'')
      | PyStr s \<Rightarrow>
          (case (case globals of None \<Rightarrow> Inr [] | Some g \<Rightarrow> dict_items h g) of
             Inl e \<Rightarrow> Inl e
           | Inr kvs \<Rightarrow>
               (case alloc (PyDict kvs) h of
                  (globals1, h1) \<Rightarrow>
                    Inr (\<lparr>self_stmt = s, self_label = label, self_sub_label = sub_label,
                          self_description = description, self_env = env,
                          self_num_threads = num_threads, self_globals = globals1\<rparr>,
                         dict_setdefault globals1 ''torch'' torch h1))))"

subsection \<open>Measurements\<close>

text \<open>
  Modelled from the spec: the class \<open>common.Measurement\<close> is not part of the source file.
  Following sections 3 and 6 of the specification it is a plain record of
  \<open>number_per_run\<close>, \<open>times\<close>, \<open>num_threads\<close> and the labelling metadata, built by a
  constructor that does not validate its arguments, with an optional cache speed-up
  attached after construction. The field names carry the suffix \<open>_m\<close> where the plain name
  is a local variable of the source (or, for \<open>times\<close>, a constant of HOL).
\<close>

record Measurement =
  number_per_run :: int
  times_m :: "real list"
  num_threads_m :: int
  label_m :: "string option"
  sub_label_m :: "string option"
  description_m :: "string option"
  env_m :: "string option"
  stmt_m :: string
  cache_speedup_m :: "real option"

text \<open>\<open>Timer._construct_measurement\<close> (lines 56-66).\<close>

definition construct_measurement :: "Timer \<Rightarrow> int \<Rightarrow> real list \<Rightarrow> Measurement" where
  "construct_measurement self number times_l =
     \<lparr>number_per_run = number, times_m = times_l, num_threads_m = self_num_threads self,
      label_m = self_label self, sub_label_m = self_sub_label self,
      description_m = self_description self, env_m = self_env self,
      stmt_m = self_stmt self, cache_speedup_m = None\<rparr>"

text \<open>Modelled from the spec: \<open>Measurement.set_cache_speedup\<close> attaches the ratio.\<close>

definition set_cache_speedup :: "real \<Rightarrow> Measurement \<Rightarrow> Measurement" where
  "set_cache_speedup cache_speedup measure1 = measure1\<lparr>cache_speedup_m := Some cache_speedup\<rparr>"

subsection \<open>Fixed-repetition timing and the legacy entry points\<close>

text \<open>
  The argument \<open>timer_timeit\<close> stands for \<open>self._timer.timeit\<close>, the timed callable of the
  standard library: given a repeat count it runs the statement that many times and returns
  the elapsed time. It is opaque, so it is a parameter.

  \<open>Timer.timeit\<close> (lines 68-74): a warm-up of \<open>max(int(number // 100), 1)\<close> repeats, whose
  time is discarded, then one sample of \<open>number\<close> repeats. Integer division rounds towards
  minus infinity in Python and in HOL alike.
\<close>

definition Timer_timeit ::
  "Timer \<Rightarrow> (int \<Rightarrow> 'w \<Rightarrow> real \<times> 'w) \<Rightarrow> int \<Rightarrow> 'w \<Rightarrow> (error + Measurement) \<times> 'w" where
  "Timer_timeit self timer_timeit number w =
     (case timer_timeit (max (number div 100) 1) w of
        (warmup, w1) \<Rightarrow>
          (case timer_timeit number w1 of
             (t, w2) \<Rightarrow> (Inr (construct_measurement self number [t]), w2)))"

text \<open>
  \<open>Timer.repeat\<close> and \<open>Timer.autorange\<close> (lines 76-80) raise at once. The world comes back
  as it was: nothing has been run.
\<close>

definition Timer_repeat ::
  "Timer \<Rightarrow> (int \<Rightarrow> 'w \<Rightarrow> real \<times> 'w) \<Rightarrow> int \<Rightarrow> int \<Rightarrow> 'w \<Rightarrow> (error + Measurement) \<times> 'w" where
  "Timer_repeat self timer_timeit repeat number w =
     (Inl (NotImplementedError ''See `Timer.blocked_autorange.`''), w)"

definition Timer_autorange ::
  "Timer \<Rightarrow> (int \<Rightarrow> 'w \<Rightarrow> real \<times> 'w) \<Rightarrow> (int \<Rightarrow> real \<Rightarrow> 'w \<Rightarrow> 'w) option \<Rightarrow> 'w
     \<Rightarrow> (error + Measurement) \<times> 'w" where
  "Timer_autorange self timer_timeit callback w =
     (Inl (NotImplementedError ''See `Timer.blocked_autorange.`''), w)"

subsection \<open>The measurement loop\<close>

text \<open>
  The calls the loop makes to its hooks are logged, in program order, with their arguments
  and results.
\<close>

datatype event =
    TimeHookCall real
  | CallbackCall int real
  | StopHookCall "real list" bool

text \<open>
  The \<open>while\<close> loop of \<open>Timer._threaded_measurement_loop\<close> (lines 88-96) over its local
  variables \<open>total_time\<close>, \<open>can_stop\<close> and \<open>times\<close>, the world and the log.
  \<^item> \<open>total_time += time_spent\<close> is a float addition, which rounds: \<open>float_add\<close> stands
    for it. Exact addition is the instance \<open>(+)\<close>.
  \<^item> \<open>stop_hook(times)\<close> is handed the list object that the loop appends to and returns:
    the hook answers with its result and with the list as it leaves it, and the loop goes
    on with that list.
  \<^item> An absent or \<open>None\<close> callback is falsy; \<open>max_run_time and ...\<close> is falsy when
    \<open>max_run_time\<close> is \<open>None\<close> and also when it is \<open>0\<close>.
\<close>

partial_function (option) measurement_while ::
  "(real \<Rightarrow> real \<Rightarrow> real) \<Rightarrow> int \<Rightarrow> ('w \<Rightarrow> real \<times> 'w)
     \<Rightarrow> (real list \<Rightarrow> 'w \<Rightarrow> bool \<times> real list \<times> 'w) \<Rightarrow> real \<Rightarrow> real option
     \<Rightarrow> (int \<Rightarrow> real \<Rightarrow> 'w \<Rightarrow> 'w) option
     \<Rightarrow> real \<Rightarrow> bool \<Rightarrow> real list \<Rightarrow> 'w \<Rightarrow> event list
     \<Rightarrow> (real \<times> bool \<times> real list \<times> 'w \<times> event list) option" where
  "measurement_while float_add number time_hook stop_hook min_run_time max_run_time callback
       total_time can_stop times_l w tr =
     (if total_time < min_run_time \<or> \<not> can_stop then
        (case time_hook w of
           (time_spent, w1) \<Rightarrow>
             (case (case callback of
                      None \<Rightarrow> (w1, [])
                    | Some cb \<Rightarrow> (cb number time_spent w1, [CallbackCall number time_spent])) of
                (w2, cb_log) \<Rightarrow>
                  (case stop_hook (times_l @ [time_spent]) w2 of
                     (can_stop1, times_l1, w3) \<Rightarrow>
                       if (case max_run_time of
                             None \<Rightarrow> False
                           | Some m \<Rightarrow> m \<noteq> 0 \<and> float_add total_time time_spent > m)
                       then Some (float_add total_time time_spent, can_stop1, times_l1, w3,
                                  tr @ TimeHookCall time_spent # cb_log
                                     @ [StopHookCall (times_l @ [time_spent]) can_stop1])
                       else measurement_while float_add number time_hook stop_hook min_run_time
                              max_run_time callback
                              (float_add total_time time_spent) can_stop1 times_l1 w3
                              (tr @ TimeHookCall time_spent # cb_log
                                  @ [StopHookCall (times_l @ [time_spent]) can_stop1]))))
      else Some (total_time, can_stop, times_l, w, tr))"

text \<open>
  \<open>Timer._threaded_measurement_loop\<close> (lines 82-97): the loop from \<open>total_time = 0.0\<close>,
  \<open>can_stop = False\<close>, \<open>times = []\<close>, returning \<open>times\<close> (with the world and the log).
\<close>

definition threaded_measurement_loop ::
  "(real \<Rightarrow> real \<Rightarrow> real) \<Rightarrow> int \<Rightarrow> ('w \<Rightarrow> real \<times> 'w)
     \<Rightarrow> (real list \<Rightarrow> 'w \<Rightarrow> bool \<times> real list \<times> 'w) \<Rightarrow> real \<Rightarrow> real option
     \<Rightarrow> (int \<Rightarrow> real \<Rightarrow> 'w \<Rightarrow> 'w) option \<Rightarrow> 'w
     \<Rightarrow> (real list \<times> 'w \<times> event list) option" where
  "threaded_measurement_loop float_add number time_hook stop_hook min_run_time max_run_time
       callback w =
     (case measurement_while float_add number time_hook stop_hook min_run_time max_run_time
             callback 0 False [] w [] of
        None \<Rightarrow> None
      | Some (total_time, can_stop, times_l, w1, tr) \<Rightarrow> Some (times_l, w1, tr))"

text \<open>
  The results of the time-hook calls in a log, that is the samples taken, and the arguments
  of the stop-hook calls, both in order.
\<close>

fun time_hook_results :: "event list \<Rightarrow> real list" where
  "time_hook_results [] = []"
| "time_hook_results (TimeHookCall t # es) = t # time_hook_results es"
| "time_hook_results (e # es) = time_hook_results es"

fun stop_hook_args :: "event list \<Rightarrow> real list list" where
  "stop_hook_args [] = []"
| "stop_hook_args (StopHookCall ts b # es) = ts # stop_hook_args es"
| "stop_hook_args (e # es) = stop_hook_args es"

text \<open>A stop-hook that leaves the list it is handed as it is.\<close>

definition keeps_list :: "(real list \<Rightarrow> 'w \<Rightarrow> bool \<times> real list \<times> 'w) \<Rightarrow> bool" where
  "keeps_list stop_hook = (\<forall>times_l w. fst (snd (stop_hook times_l w)) = times_l)"

subsection \<open>Float division\<close>

text \<open>
  \<open>py_div\<close> is Python's division of a float by a float: it raises \<open>ZeroDivisionError\<close> on
  a zero divisor.

  \<open>py_div_int\<close> is Python's division of a float by an \<open>int\<close> (line 138,
  \<open>time_taken / number\<close>). The \<open>int\<close> is converted to a float first, which raises
  \<open>OverflowError\<close> when its magnitude is \<open>2 ^ 1024 - 2 ^ 970\<close> or more (it would round to
  \<open>2 ^ 1024\<close>): \<open>10 ^ 308\<close> converts, \<open>10 ^ 309\<close> does not. The quotient rounds to \<open>0.0\<close>
  when its magnitude is at most \<open>2 ^ -1075\<close> (\<open>float_tiny\<close>), half the smallest float above
  \<open>0\<close>; since a float other than \<open>0\<close> has a magnitude of at least \<open>2 ^ -1074\<close>, this
  takes a divisor above \<open>1\<close>. Whether the quotient is \<open>0\<close> decides whether the next
  division raises; its value otherwise is taken without rounding.

  \<open>overhead\<close> is the result of \<open>np.median\<close>, a \<open>numpy.float64\<close>, whose division does not
  raise: it yields an infinity, or NaN for \<open>0 / 0\<close>, and every comparison with NaN is
  false.
\<close>

definition py_div :: "real \<Rightarrow> real \<Rightarrow> error + real" where
  "py_div x y = (if y = 0 then Inl ZeroDivisionError else Inr (x / y))"

definition float_max_int :: int where
  "float_max_int = 2 ^ 1024 - 2 ^ 970"

definition float_tiny :: real where
  "float_tiny = 1 / 2 ^ 1075"

definition py_div_int :: "real \<Rightarrow> int \<Rightarrow> error + real" where
  "py_div_int x n =
     (if float_max_int \<le> \<bar>n\<bar> then Inl OverflowError
      else if n = 0 then Inl ZeroDivisionError
      else if 1 < \<bar>n\<bar> \<and> \<bar>x / of_int n\<bar> \<le> float_tiny then Inr 0
      else Inr (x / of_int n))"

datatype np_float = Finite real | PosInf | NegInf | NaN

definition np_div :: "real \<Rightarrow> real \<Rightarrow> np_float" where
  "np_div x y =
     (if y \<noteq> 0 then Finite (x / y)
      else if 0 < x then PosInf
      else if x < 0 then NegInf
      else NaN)"

definition np_le :: "np_float \<Rightarrow> real \<Rightarrow> bool" where
  "np_le x c = (case x of Finite r \<Rightarrow> r \<le> c | PosInf \<Rightarrow> False | NegInf \<Rightarrow> True | NaN \<Rightarrow> False)"

subsection \<open>Block size estimation\<close>

text \<open>\<open>[self._timer.timeit(n) for _ in range(k)]\<close>.\<close>

fun timeit_repeat :: "(int \<Rightarrow> 'w \<Rightarrow> real \<times> 'w) \<Rightarrow> nat \<Rightarrow> int \<Rightarrow> 'w \<Rightarrow> real list \<times> 'w" where
  "timeit_repeat timer_timeit 0 n w = ([], w)"
| "timeit_repeat timer_timeit (Suc k) n w =
     (case timer_timeit n w of
        (t, w1) \<Rightarrow> (case timeit_repeat timer_timeit k n w1 of (ts, w2) \<Rightarrow> (t # ts, w2)))"

text \<open>
  \<open>np.median\<close> of a non-empty list: the middle element of the sorted list, or the mean of
  the two middle elements. The source applies it to five samples.
\<close>

definition median :: "real list \<Rightarrow> real" where
  "median xs =
     (let s = sort xs; n = length s
      in if odd n then s ! (n div 2) else (s ! (n div 2 - 1) + s ! (n div 2)) / 2)"

text \<open>
  \<open>Timer._measure_uncached_runtime\<close> (lines 115-121): after clearing the cache and a
  throw-away run of another statement, whose effects are on the machine's caches only, one
  run of the timed statement.
\<close>

definition measure_uncached_runtime :: "(int \<Rightarrow> 'w \<Rightarrow> real \<times> 'w) \<Rightarrow> 'w \<Rightarrow> real \<times> 'w" where
  "measure_uncached_runtime timer_timeit w = timer_timeit 1 w"

text \<open>
  The \<open>while True\<close> loop of \<open>Timer._estimate_block_size\<close> (lines 135-144) over its local
  variables \<open>number\<close> and \<open>cache_speedup\<close>. \<open>1e-4\<close> is \<open>1 / 10000\<close>.
\<close>

partial_function (option) estimate_while ::
  "(int \<Rightarrow> 'w \<Rightarrow> real \<times> 'w) \<Rightarrow> real \<Rightarrow> bool \<Rightarrow> real \<Rightarrow> real \<Rightarrow> int \<Rightarrow> real \<Rightarrow> 'w
     \<Rightarrow> ((error + int \<times> real) \<times> 'w) option" where
  "estimate_while timer_timeit min_run_time check_cache_speedup overhead uncached_time
       number cache_speedup w =
     (case timer_timeit number w of
        (time_taken, w1) \<Rightarrow>
          (case (if check_cache_speedup
                 then (case py_div_int time_taken number of
                         Inl e \<Rightarrow> Inl e
                       | Inr per_call \<Rightarrow> py_div uncached_time per_call)
                 else Inr cache_speedup) of
             Inl e \<Rightarrow> Some (Inl e, w1)
           | Inr cache_speedup1 \<Rightarrow>
               if np_le (np_div overhead time_taken) (1 / 10000)
                    \<and> time_taken \<ge> min_run_time / 1000
               then Some (Inr (number, cache_speedup1), w1)
               else if time_taken > min_run_time
               then Some (Inr (number, cache_speedup1), w1)
               else estimate_while timer_timeit min_run_time check_cache_speedup overhead
                      uncached_time (number * 10) cache_speedup1 w1))"

text \<open>\<open>Timer._estimate_block_size\<close> (lines 123-145).\<close>

definition estimate_block_size ::
  "(int \<Rightarrow> 'w \<Rightarrow> real \<times> 'w) \<Rightarrow> real \<Rightarrow> bool \<Rightarrow> 'w \<Rightarrow> ((error + int \<times> real) \<times> 'w) option" where
  "estimate_block_size timer_timeit min_run_time check_cache_speedup w =
     (case timeit_repeat timer_timeit 5 0 w of
        (samples, w1) \<Rightarrow>
          (case (if check_cache_speedup then measure_uncached_runtime timer_timeit w1
                 else (0, w1)) of
             (uncached_time, w2) \<Rightarrow>
               estimate_while timer_timeit min_run_time check_cache_speedup (median samples)
                 uncached_time 1 0 w2))"

subsection \<open>Fixed-duration block sampling\<close>

text \<open>The stop-hook of \<open>blocked_autorange\<close> (lines 153-154): \<open>return True\<close>.\<close>

definition blocked_stop_hook :: "real list \<Rightarrow> 'w \<Rightarrow> bool \<times> real list \<times> 'w" where
  "blocked_stop_hook times_l w = (True, times_l, w)"

text \<open>
  \<open>Timer.blocked_autorange\<close> (lines 147-159), with the block size estimator as a
  parameter, so that it can be replaced by a stub. The time-hook is
  \<open>self._timer.timeit(number)\<close>.
\<close>

definition blocked_autorange_with ::
  "(real \<Rightarrow> real \<Rightarrow> real) \<Rightarrow> (real \<Rightarrow> 'w \<Rightarrow> ((error + int \<times> real) \<times> 'w) option) \<Rightarrow> Timer
     \<Rightarrow> (int \<Rightarrow> 'w \<Rightarrow> real \<times> 'w) \<Rightarrow> (int \<Rightarrow> real \<Rightarrow> 'w \<Rightarrow> 'w) option \<Rightarrow> real \<Rightarrow> 'w
     \<Rightarrow> ((error + Measurement) \<times> 'w) option" where
  "blocked_autorange_with float_add estimate self timer_timeit callback min_run_time w =
     (case estimate min_run_time w of
        None \<Rightarrow> None
      | Some (Inl e, w1) \<Rightarrow> Some (Inl e, w1)
      | Some (Inr (number, cache_speedup), w1) \<Rightarrow>
          (case threaded_measurement_loop float_add number (timer_timeit number)
                  blocked_stop_hook min_run_time None callback w1 of
             None \<Rightarrow> None
           | Some (times_l, w2, tr) \<Rightarrow>
               Some (Inr (set_cache_speedup cache_speedup
                            (construct_measurement self number times_l)), w2)))"

definition blocked_autorange ::
  "(real \<Rightarrow> real \<Rightarrow> real) \<Rightarrow> Timer \<Rightarrow> (int \<Rightarrow> 'w \<Rightarrow> real \<times> 'w)
     \<Rightarrow> (int \<Rightarrow> real \<Rightarrow> 'w \<Rightarrow> 'w) option \<Rightarrow> real \<Rightarrow> 'w
     \<Rightarrow> ((error + Measurement) \<times> 'w) option" where
  "blocked_autorange float_add self timer_timeit callback min_run_time w =
     blocked_autorange_with float_add (\<lambda>m. estimate_block_size timer_timeit m True)
       self timer_timeit callback min_run_time w"

subsection \<open>Confidence-bounded adaptive sampling\<close>

text \<open>
  The stop-hook of \<open>adaptive_autorange\<close> (lines 105-109). \<open>meets_confidence\<close> is a method
  of the class \<open>Measurement\<close>, which is not part of the source file: it is a parameter. Both
  stop-hooks of the source leave the list as it is.
\<close>

definition adaptive_stop_hook ::
  "(Measurement \<Rightarrow> real \<Rightarrow> bool) \<Rightarrow> Timer \<Rightarrow> int \<Rightarrow> real \<Rightarrow> real list \<Rightarrow> 'w
     \<Rightarrow> bool \<times> real list \<times> 'w" where
  "adaptive_stop_hook meets_confidence self number threshold times_l w =
     (if length times_l > 3
      then meets_confidence (construct_measurement self number times_l) threshold
      else False, times_l, w)"

text \<open>
  \<open>Timer.adaptive_autorange\<close> (lines 99-113), with the estimator as a parameter. The
  estimator is called with \<open>min_run_time = 0.05\<close>, whatever the caller's \<open>min_run_time\<close>.
\<close>

definition adaptive_autorange_with ::
  "(real \<Rightarrow> real \<Rightarrow> real) \<Rightarrow> (real \<Rightarrow> 'w \<Rightarrow> ((error + int \<times> real) \<times> 'w) option)
     \<Rightarrow> (Measurement \<Rightarrow> real \<Rightarrow> bool) \<Rightarrow> Timer \<Rightarrow> (int \<Rightarrow> 'w \<Rightarrow> real \<times> 'w) \<Rightarrow> real
     \<Rightarrow> real option \<Rightarrow> (int \<Rightarrow> real \<Rightarrow> 'w \<Rightarrow> 'w) option \<Rightarrow> real \<Rightarrow> 'w
     \<Rightarrow> ((error + Measurement) \<times> 'w) option" where
  "adaptive_autorange_with float_add estimate meets_confidence self timer_timeit threshold
       max_run_time callback min_run_time w =
     (case estimate (5 / 100) w of
        None \<Rightarrow> None
      | Some (Inl e, w1) \<Rightarrow> Some (Inl e, w1)
      | Some (Inr (number, cache_speedup), w1) \<Rightarrow>
          (case threaded_measurement_loop float_add number (timer_timeit number)
                  (adaptive_stop_hook meets_confidence self number threshold)
                  min_run_time max_run_time callback w1 of
             None \<Rightarrow> None
           | Some (times_l, w2, tr) \<Rightarrow>
               Some (Inr (set_cache_speedup cache_speedup
                            (construct_measurement self number times_l)), w2)))"

definition adaptive_autorange ::
  "(real \<Rightarrow> real \<Rightarrow> real) \<Rightarrow> (Measurement \<Rightarrow> real \<Rightarrow> bool) \<Rightarrow> Timer
     \<Rightarrow> (int \<Rightarrow> 'w \<Rightarrow> real \<times> 'w) \<Rightarrow> real \<Rightarrow> real option
     \<Rightarrow> (int \<Rightarrow> real \<Rightarrow> 'w \<Rightarrow> 'w) option \<Rightarrow> real \<Rightarrow> 'w
     \<Rightarrow> ((error + Measurement) \<times> 'w) option" where
  "adaptive_autorange float_add meets_confidence self timer_timeit threshold max_run_time
       callback min_run_time w =
     adaptive_autorange_with float_add (\<lambda>m. estimate_block_size timer_timeit m True)
       meets_confidence self timer_timeit threshold max_run_time callback min_run_time w"

subsection \<open>Test doubles\<close>

text \<open>
  A timed callable without effects whose elapsed time is a function of the repeat count,
  and one whose elapsed time is a constant.
\<close>

definition det_timeit :: "(int \<Rightarrow> real) \<Rightarrow> int \<Rightarrow> 'w \<Rightarrow> real \<times> 'w" where
  "det_timeit tt n w = (tt n, w)"

definition const_timeit :: "real \<Rightarrow> int \<Rightarrow> 'w \<Rightarrow> real \<times> 'w" where
  "const_timeit d n w = (d, w)"

text \<open>A stop-hook that never allows the loop to stop.\<close>

definition never_stop_hook :: "real list \<Rightarrow> 'w \<Rightarrow> bool \<times> real list \<times> 'w" where
  "never_stop_hook times_l w = (False, times_l, w)"



text \<open>An estimator stubbed to a fixed result.\<close>

definition stub_estimate ::
  "int \<Rightarrow> real \<Rightarrow> real \<Rightarrow> 'w \<Rightarrow> ((error + int \<times> real) \<times> 'w) option" where
  "stub_estimate number cache_speedup min_run_time w = Some (Inr (number, cache_speedup), w)"

text \<open>Elapsed time proportional to the repeat count, with no overhead.\<close>

definition linear_time :: "real \<Rightarrow> int \<Rightarrow> real" where
  "linear_time c n = c * of_int n"

text \<open>A clock too coarse to see one run: \<open>0\<close> for at most one repeat, \<open>1\<close> for more.\<close>

definition zero_then_one :: "int \<Rightarrow> real" where
  "zero_then_one n = (if n \<le> 1 then 0 else 1)"

text \<open>
  A store with a list at address \<open>0\<close>, the caller's mapping \<open>{'x': <the list>}\<close> at
  address \<open>1\<close> and the module \<open>torch\<close> at address \<open>2\<close>, and the Timer that
  \<open>Timer(stmt='pass', globals=<the mapping>)\<close> builds in it.
\<close>

definition example_heap :: heap where
  "example_heap = [PyList [], PyDict [(''x'', 0)], PyOther]"

definition example_timer :: Timer where
  "example_timer =
     \<lparr>self_stmt = ''pass'', self_label = None, self_sub_label = None, self_description = None,
      self_env = None, self_num_threads = 1, self_globals = 3\<rparr>"

section \<open>Properties\<close>

subsection \<open>The legacy entry points\<close>

text \<open>
  C9: the legacy entry points \<open>Timer.repeat\<close> and \<open>Timer.autorange\<close> fail at once for every
  combination of arguments, with a \<open>NotImplementedError\<close> whose message points to
  \<open>Timer.blocked_autorange\<close>; they return no value, and they leave the world as it was, so
  the timed work has not run.
\<close>

theorem legacy_entry_points_always_fail:
  "Timer_repeat self timer_timeit repeat number w
     = (Inl (NotImplementedError ''See `Timer.blocked_autorange.`''), w)
   \<and> Timer_autorange self timer_timeit callback w
     = (Inl (NotImplementedError ''See `Timer.blocked_autorange.`''), w)
   \<and> (\<nexists>m. fst (Timer_repeat self timer_timeit repeat number w) = Inr m)
   \<and> (\<nexists>m. fst (Timer_autorange self timer_timeit callback w) = Inr m)"
  by (simp add: Timer_repeat_def Timer_autorange_def)

subsection \<open>Fixed-repetition timing\<close>

text \<open>
  C3, as the code has it: \<open>Timer.timeit\<close> does not validate \<open>number\<close>. For every
  \<open>number\<close>, also below \<open>1\<close>, it runs the warm-up and one timed sample and returns a
  Measurement with exactly one sample, the time of that run, and \<open>number_per_run\<close> equal
  to the given \<open>number\<close>; it signals no error.
\<close>

theorem timeit_one_sample_for_every_number:
  "\<exists>m. fst (Timer_timeit self timer_timeit number w) = Inr m
       \<and> number_per_run m = number
       \<and> times_m m = [fst (timer_timeit number (snd (timer_timeit (max (number div 100) 1) w)))]
       \<and> length (times_m m) = 1"
  by (simp add: Timer_timeit_def construct_measurement_def split: prod.splits)

text \<open>
  C3 as stated fails: with \<open>number = -1\<close> and a timed callable that takes no time,
  \<open>Timer.timeit\<close> returns a Measurement with \<open>number_per_run = -1\<close> instead of an error.
\<close>

theorem timeit_negative_number_returns_measurement:
  "(-1::int) < 1 \<and>
   Timer_timeit example_timer (const_timeit 0) (-1) ()
     = (Inr (construct_measurement example_timer (-1) [0]), ())"
  by (simp add: Timer_timeit_def const_timeit_def)

subsection \<open>The measurement loop\<close>

text \<open>
  Invariants of the loop, each by induction on its runs: the total is the running sum of
  the results of the time-hook; the loop returns only when its condition is false or the
  ceiling is exceeded; the last logged call is the last call of the stop-hook; the
  stop-hook has been called as often as the time-hook. For a stop-hook that leaves the list
  as it is, the list is the sequence of the results of the time-hook, and the calls of the
  stop-hook are on its non-empty prefixes.
\<close>

lemma keeps_listD:
  assumes "keeps_list sh" and "sh ts w = (b, l, w')"
  shows "l = ts"
proof -
  from assms(1) have "fst (snd (sh ts w)) = ts" by (simp add: keeps_list_def)
  with assms(2) show ?thesis by simp
qed

lemma keeps_list_hooks:
  "keeps_list blocked_stop_hook" "keeps_list never_stop_hook"
  "keeps_list (adaptive_stop_hook mc self n thr)"
  by (simp_all add: keeps_list_def blocked_stop_hook_def never_stop_hook_def
        adaptive_stop_hook_def)

lemma time_hook_results_append:
  "time_hook_results (xs @ ys) = time_hook_results xs @ time_hook_results ys"
  by (induction xs rule: time_hook_results.induct) auto

lemma stop_hook_args_append:
  "stop_hook_args (xs @ ys) = stop_hook_args xs @ stop_hook_args ys"
  by (induction xs rule: stop_hook_args.induct) auto

lemma tl_prefixes_snoc: "tl (prefixes (xs @ [x])) = tl (prefixes xs) @ [xs @ [x]]"
  by simp

lemma measurement_while_total:
  assumes "measurement_while fa number th sh mn mx cb tot cs ts w tr = Some r"
  shows "tot = foldl fa 0 (time_hook_results tr) \<longrightarrow>
         fst r = foldl fa 0 (time_hook_results (snd (snd (snd (snd r)))))"
  by (rule measurement_while.raw_induct[where P = "\<lambda>fa number th sh mn mx cb tot cs ts w tr r.
        tot = foldl fa 0 (time_hook_results tr) \<longrightarrow>
         fst r = foldl fa 0 (time_hook_results (snd (snd (snd (snd r)))))", OF _ assms])
     (auto split: if_splits prod.splits option.splits simp: time_hook_results_append)

lemma measurement_while_exit:
  assumes "measurement_while fa number th sh mn mx cb tot cs ts w tr = Some r"
  shows "(mn \<le> fst r \<and> fst (snd r)) \<or> (\<exists>m. mx = Some m \<and> m \<noteq> 0 \<and> m < fst r)"
  by (rule measurement_while.raw_induct[where P = "\<lambda>fa number th sh mn mx cb tot cs ts w tr r.
        (mn \<le> fst r \<and> fst (snd r)) \<or> (\<exists>m. mx = Some m \<and> m \<noteq> 0 \<and> m < fst r)", OF _ assms])
     (auto split: if_splits prod.splits option.splits)

lemma measurement_while_last:
  assumes "measurement_while fa number th sh mn mx cb tot cs ts w tr = Some r"
  shows "(\<not> cs \<or> (tr \<noteq> [] \<and> (\<exists>a. last tr = StopHookCall a cs))) \<longrightarrow>
         (snd (snd (snd (snd r))) \<noteq> [] \<and>
          (\<exists>a. last (snd (snd (snd (snd r)))) = StopHookCall a (fst (snd r))))"
  by (rule measurement_while.raw_induct[where P = "\<lambda>fa number th sh mn mx cb tot cs ts w tr r.
        (\<not> cs \<or> (tr \<noteq> [] \<and> (\<exists>a. last tr = StopHookCall a cs))) \<longrightarrow>
         (snd (snd (snd (snd r))) \<noteq> [] \<and>
          (\<exists>a. last (snd (snd (snd (snd r)))) = StopHookCall a (fst (snd r))))",
        OF _ assms])
     (auto split: if_splits prod.splits option.splits)

lemma measurement_while_calls:
  assumes "measurement_while fa number th sh mn mx cb tot cs ts w tr = Some r"
  shows "length (stop_hook_args tr) = length (time_hook_results tr) \<longrightarrow>
         length (stop_hook_args (snd (snd (snd (snd r)))))
           = length (time_hook_results (snd (snd (snd (snd r)))))"
  by (rule measurement_while.raw_induct[where P = "\<lambda>fa number th sh mn mx cb tot cs ts w tr r.
        length (stop_hook_args tr) = length (time_hook_results tr) \<longrightarrow>
         length (stop_hook_args (snd (snd (snd (snd r)))))
           = length (time_hook_results (snd (snd (snd (snd r)))))", OF _ assms])
     (auto split: if_splits prod.splits option.splits
           simp: stop_hook_args_append time_hook_results_append)


lemma keeps_list_form:
  assumes "keeps_list sh"
  shows "sh = (\<lambda>l w. (fst (sh l w), l, snd (snd (sh l w))))"
proof (intro ext)
  fix l w
  from assms have "fst (snd (sh l w)) = l" by (simp add: keeps_list_def)
  then show "sh l w = (fst (sh l w), l, snd (snd (sh l w)))"
    by (simp add: prod_eq_iff)
qed

lemma measurement_while_samples_aux:
  assumes "measurement_while fa number th sh mn mx cb tot cs ts w tr = Some r"
  shows "sh = (\<lambda>l w. (fst (g l w), l, snd (g l w))) \<longrightarrow> time_hook_results tr = ts \<longrightarrow>
         time_hook_results (snd (snd (snd (snd r)))) = fst (snd (snd r))"
  by (rule measurement_while.raw_induct[where P = "\<lambda>fa number th sh mn mx cb tot cs ts w tr r.
        sh = (\<lambda>l w. (fst (g l w), l, snd (g l w))) \<longrightarrow> time_hook_results tr = ts \<longrightarrow>
         time_hook_results (snd (snd (snd (snd r)))) = fst (snd (snd r))", OF _ assms])
     (auto split: if_splits prod.splits option.splits simp: time_hook_results_append)

lemma measurement_while_samples:
  assumes "measurement_while fa number th sh mn mx cb tot cs ts w tr = Some r"
    and "keeps_list sh" and "time_hook_results tr = ts"
  shows "time_hook_results (snd (snd (snd (snd r)))) = fst (snd (snd r))"
  using measurement_while_samples_aux[OF assms(1),
      where g = "\<lambda>l w. (fst (sh l w), snd (snd (sh l w)))"]
    keeps_list_form[OF assms(2)] assms(3)
  by simp

lemma measurement_while_last_keeps_aux:
  assumes "measurement_while fa number th sh mn mx cb tot cs ts w tr = Some r"
  shows "sh = (\<lambda>l w. (fst (g l w), l, snd (g l w))) \<longrightarrow>
         (\<not> cs \<or> (tr \<noteq> [] \<and> last tr = StopHookCall ts cs)) \<longrightarrow>
         last (snd (snd (snd (snd r)))) = StopHookCall (fst (snd (snd r))) (fst (snd r))"
  by (rule measurement_while.raw_induct[where P = "\<lambda>fa number th sh mn mx cb tot cs ts w tr r.
        sh = (\<lambda>l w. (fst (g l w), l, snd (g l w))) \<longrightarrow>
         (\<not> cs \<or> (tr \<noteq> [] \<and> last tr = StopHookCall ts cs)) \<longrightarrow>
         last (snd (snd (snd (snd r)))) = StopHookCall (fst (snd (snd r))) (fst (snd r))",
        OF _ assms])
     (auto split: if_splits prod.splits option.splits)

lemma measurement_while_last_keeps:
  assumes "measurement_while fa number th sh mn mx cb tot cs ts w tr = Some r"
    and "keeps_list sh" and "\<not> cs"
  shows "last (snd (snd (snd (snd r)))) = StopHookCall (fst (snd (snd r))) (fst (snd r))"
  using measurement_while_last_keeps_aux[OF assms(1),
      where g = "\<lambda>l w. (fst (sh l w), snd (snd (sh l w)))"]
    keeps_list_form[OF assms(2)] assms(3)
  by simp

lemma measurement_while_stop_hook_args_aux:
  assumes "measurement_while fa number th sh mn mx cb tot cs ts w tr = Some r"
  shows "sh = (\<lambda>l w. (fst (g l w), l, snd (g l w))) \<longrightarrow>
         stop_hook_args tr = tl (prefixes ts) \<longrightarrow>
         stop_hook_args (snd (snd (snd (snd r)))) = tl (prefixes (fst (snd (snd r))))"
  by (rule measurement_while.raw_induct[where P = "\<lambda>fa number th sh mn mx cb tot cs ts w tr r.
        sh = (\<lambda>l w. (fst (g l w), l, snd (g l w))) \<longrightarrow>
         stop_hook_args tr = tl (prefixes ts) \<longrightarrow>
         stop_hook_args (snd (snd (snd (snd r)))) = tl (prefixes (fst (snd (snd r))))",
        OF _ assms])
     (auto split: if_splits prod.splits option.splits
           simp: stop_hook_args_append tl_prefixes_snoc simp del: prefixes_snoc)

lemma measurement_while_stop_hook_args:
  assumes "measurement_while fa number th sh mn mx cb tot cs ts w tr = Some r"
    and "keeps_list sh" and "stop_hook_args tr = tl (prefixes ts)"
  shows "stop_hook_args (snd (snd (snd (snd r)))) = tl (prefixes (fst (snd (snd r))))"
  using measurement_while_stop_hook_args_aux[OF assms(1),
      where g = "\<lambda>l w. (fst (sh l w), snd (snd (sh l w)))"]
    keeps_list_form[OF assms(2)] assms(3)
  by simp


lemma foldl_plus_sum_list: "foldl (+) a xs = a + sum_list (xs::real list)"
  by (induction xs arbitrary: a) simp_all

lemma threaded_run:
  assumes "threaded_measurement_loop fa number th sh mn mx cb w = Some (ts, w', tr)"
  shows "\<exists>tot' cs'. measurement_while fa number th sh mn mx cb 0 False [] w []
           = Some (tot', cs', ts, w', tr)"
  using assms by (auto simp: threaded_measurement_loop_def split: option.splits)

lemma threaded_exit:
  assumes "threaded_measurement_loop fa number th sh mn mx cb w = Some (ts, w', tr)"
  shows "(mn \<le> foldl fa 0 (time_hook_results tr) \<and> tr \<noteq> []
            \<and> (\<exists>a. last tr = StopHookCall a True))
         \<or> (\<exists>m. mx = Some m \<and> m \<noteq> 0 \<and> m < foldl fa 0 (time_hook_results tr))"
proof -
  from threaded_run[OF assms] obtain tot' cs' where
    mw: "measurement_while fa number th sh mn mx cb 0 False [] w [] = Some (tot', cs', ts, w', tr)"
    by blast
  from measurement_while_total[OF mw] have tot': "tot' = foldl fa 0 (time_hook_results tr)"
    by simp
  from measurement_while_last[OF mw] have l: "tr \<noteq> [] \<and> (\<exists>a. last tr = StopHookCall a cs')"
    by simp
  from measurement_while_exit[OF mw] tot' l show ?thesis by auto
qed

lemma threaded_keeps:
  assumes "threaded_measurement_loop fa number th sh mn mx cb w = Some (ts, w', tr)"
    and "keeps_list sh"
  shows "time_hook_results tr = ts
         \<and> ((mn \<le> foldl fa 0 ts \<and> tr \<noteq> [] \<and> last tr = StopHookCall ts True)
            \<or> (\<exists>m. mx = Some m \<and> m \<noteq> 0 \<and> m < foldl fa 0 ts))
         \<and> stop_hook_args tr = tl (prefixes ts)"
proof -
  from threaded_run[OF assms(1)] obtain tot' cs' where
    mw: "measurement_while fa number th sh mn mx cb 0 False [] w [] = Some (tot', cs', ts, w', tr)"
    by blast
  from measurement_while_samples[OF mw assms(2)] have s: "time_hook_results tr = ts" by simp
  from measurement_while_total[OF mw] s have tot': "tot' = foldl fa 0 ts" by simp
  from measurement_while_last[OF mw] have ne: "tr \<noteq> []" by simp
  from measurement_while_last_keeps[OF mw assms(2)] have l: "last tr = StopHookCall ts cs'"
    by simp
  from measurement_while_stop_hook_args[OF mw assms(2)] have a: "stop_hook_args tr = tl (prefixes ts)"
    by simp
  from measurement_while_exit[OF mw] tot' l ne s a show ?thesis by auto
qed

text \<open>
  C1, as the code has it: for every \<open>number\<close>, time-hook, stop-hook, callback,
  \<open>min_run_time\<close> and optional \<open>max_run_time\<close>, when the measurement loop returns, either
  the total of the sample durations is at least \<open>min_run_time\<close> and the last call of the
  stop-hook answered true, or \<open>max_run_time\<close> is set to a value other than \<open>0\<close> and the
  total exceeds it. The total is the running sum of the results of the time-hook, whatever
  the rounding of the addition and whatever the stop-hook does to the list. For a stop-hook
  that leaves the list as it is, these results are the samples returned and the last call
  of the stop-hook was on them; with exact addition the total is their sum. And from every
  state of the loop in which it goes on, if \<open>max_run_time\<close> is set to a value other than
  \<open>0\<close> and the next sample takes the total beyond it, the loop returns right after that
  sample, whatever the minimum and the stop-hook say.
\<close>

theorem measurement_loop_exit:
  "(threaded_measurement_loop fa number th sh mn mx cb w = Some (ts, w', tr) \<longrightarrow>
      (mn \<le> foldl fa 0 (time_hook_results tr) \<and> tr \<noteq> []
         \<and> (\<exists>a. last tr = StopHookCall a True))
      \<or> (\<exists>m. mx = Some m \<and> m \<noteq> 0 \<and> m < foldl fa 0 (time_hook_results tr)))
   \<and> (keeps_list sh \<and> threaded_measurement_loop fa number th sh mn mx cb w = Some (ts, w', tr)
        \<longrightarrow> time_hook_results tr = ts
            \<and> ((mn \<le> foldl fa 0 ts \<and> tr \<noteq> [] \<and> last tr = StopHookCall ts True)
               \<or> (\<exists>m. mx = Some m \<and> m \<noteq> 0 \<and> m < foldl fa 0 ts)))
   \<and> (keeps_list sh \<and> threaded_measurement_loop (+) number th sh mn mx cb w = Some (ts, w', tr)
        \<longrightarrow> (mn \<le> sum_list ts \<and> tr \<noteq> [] \<and> last tr = StopHookCall ts True)
            \<or> (\<exists>m. mx = Some m \<and> m \<noteq> 0 \<and> m < sum_list ts))
   \<and> ((tot < mn \<or> \<not> cs) \<and> mx = Some m \<and> m \<noteq> 0 \<and> m < fa tot (fst (th w)) \<longrightarrow>
        (\<exists>r. measurement_while fa number th sh mn mx cb tot cs ts0 w tr0 = Some r
            \<and> fst r = fa tot (fst (th w))
            \<and> (keeps_list sh \<longrightarrow> fst (snd (snd r)) = ts0 @ [fst (th w)])))"
proof (intro conjI)
  show "threaded_measurement_loop fa number th sh mn mx cb w = Some (ts, w', tr) \<longrightarrow>
      (mn \<le> foldl fa 0 (time_hook_results tr) \<and> tr \<noteq> []
         \<and> (\<exists>a. last tr = StopHookCall a True))
      \<or> (\<exists>m. mx = Some m \<and> m \<noteq> 0 \<and> m < foldl fa 0 (time_hook_results tr))"
    by (rule impI) (rule threaded_exit)
next
  show "keeps_list sh \<and> threaded_measurement_loop fa number th sh mn mx cb w = Some (ts, w', tr)
        \<longrightarrow> time_hook_results tr = ts
            \<and> ((mn \<le> foldl fa 0 ts \<and> tr \<noteq> [] \<and> last tr = StopHookCall ts True)
               \<or> (\<exists>m. mx = Some m \<and> m \<noteq> 0 \<and> m < foldl fa 0 ts))"
  proof
    assume a: "keeps_list sh
      \<and> threaded_measurement_loop fa number th sh mn mx cb w = Some (ts, w', tr)"
    from threaded_keeps[of fa number th sh mn mx cb w ts w' tr] a
    show "time_hook_results tr = ts
            \<and> ((mn \<le> foldl fa 0 ts \<and> tr \<noteq> [] \<and> last tr = StopHookCall ts True)
               \<or> (\<exists>m. mx = Some m \<and> m \<noteq> 0 \<and> m < foldl fa 0 ts))"
      by simp
  qed
next
  show "keeps_list sh \<and> threaded_measurement_loop (+) number th sh mn mx cb w = Some (ts, w', tr)
        \<longrightarrow> (mn \<le> sum_list ts \<and> tr \<noteq> [] \<and> last tr = StopHookCall ts True)
            \<or> (\<exists>m. mx = Some m \<and> m \<noteq> 0 \<and> m < sum_list ts)"
  proof
    assume a: "keeps_list sh
      \<and> threaded_measurement_loop (+) number th sh mn mx cb w = Some (ts, w', tr)"
    from threaded_keeps[of "(+)" number th sh mn mx cb w ts w' tr] a
    show "(mn \<le> sum_list ts \<and> tr \<noteq> [] \<and> last tr = StopHookCall ts True)
            \<or> (\<exists>m. mx = Some m \<and> m \<noteq> 0 \<and> m < sum_list ts)"
      by (simp add: foldl_plus_sum_list)
  qed
next
  show "(tot < mn \<or> \<not> cs) \<and> mx = Some m \<and> m \<noteq> 0 \<and> m < fa tot (fst (th w)) \<longrightarrow>
        (\<exists>r. measurement_while fa number th sh mn mx cb tot cs ts0 w tr0 = Some r
            \<and> fst r = fa tot (fst (th w))
            \<and> (keeps_list sh \<longrightarrow> fst (snd (snd r)) = ts0 @ [fst (th w)]))"
  proof
    assume a: "(tot < mn \<or> \<not> cs) \<and> mx = Some m \<and> m \<noteq> 0 \<and> m < fa tot (fst (th w))"
    then show "\<exists>r. measurement_while fa number th sh mn mx cb tot cs ts0 w tr0 = Some r
            \<and> fst r = fa tot (fst (th w))
            \<and> (keeps_list sh \<longrightarrow> fst (snd (snd r)) = ts0 @ [fst (th w)])"
      by (subst measurement_while.simps)
         (auto split: prod.splits option.splits dest: keeps_listD)
  qed
qed

lemma run_half_ceiling:
  "threaded_measurement_loop (+) 1 (const_timeit (1/2) 1) never_stop_hook 1 (Some (1/4)) None ()
     = Some ([1/2], (), [TimeHookCall (1/2), StopHookCall [1/2] False])"
  by (simp add: threaded_measurement_loop_def measurement_while.simps const_timeit_def
        never_stop_hook_def)


text \<open>
  The theorem at a run that the ceiling ends: samples of \<open>1/2\<close>, \<open>min_run_time = 1\<close>,
  \<open>max_run_time = 1/4\<close> and a stop-hook that is never true.
\<close>

theorem measurement_loop_exit_witness:
  "threaded_measurement_loop (+) 1 (const_timeit (1/2) 1) never_stop_hook 1 (Some (1/4)) None ()
     = Some ([1/2], (), [TimeHookCall (1/2), StopHookCall [1/2] False])
   \<and> keeps_list (never_stop_hook :: real list \<Rightarrow> unit \<Rightarrow> bool \<times> real list \<times> unit)
   \<and> time_hook_results [TimeHookCall (1/2), StopHookCall [1/2] False] = [1/2]
   \<and> (\<exists>m. Some (1/4) = Some m \<and> m \<noteq> 0 \<and> m < foldl (+) 0 [1/2::real])
   \<and> (\<exists>m. Some (1/4) = Some m \<and> m \<noteq> 0 \<and> m < sum_list [1/2::real])
   \<and> ((0::real) < 1 \<and> (1/4::real) \<noteq> 0 \<and> (1/4::real) < 0 + fst (const_timeit (1/2) 1 ()))
   \<and> (\<exists>r. measurement_while (+) 1 (const_timeit (1/2) 1) never_stop_hook 1 (Some (1/4)) None
              0 False [] () [] = Some r
          \<and> fst r = 0 + fst (const_timeit (1/2) 1 ())
          \<and> fst (snd (snd r)) = [] @ [fst (const_timeit (1/2) 1 ())])"
proof -
  have k: "keeps_list (never_stop_hook :: real list \<Rightarrow> unit \<Rightarrow> bool \<times> real list \<times> unit)"
    by (rule keeps_list_hooks)
  from measurement_loop_exit[where fa = "(+)" and number = 1 and th = "const_timeit (1/2) 1"
      and sh = never_stop_hook and mn = 1 and mx = "Some (1/4)" and cb = None and w = "()"
      and ts = "[1/2]" and w' = "()" and tr = "[TimeHookCall (1/2), StopHookCall [1/2] False]"
      and tot = 0 and cs = False and m = "1/4" and ?ts0.0 = "[]" and ?tr0.0 = "[]"]
    run_half_ceiling k
  show ?thesis by (auto simp: const_timeit_def)
qed

text \<open>
  C1 as stated fails when \<open>max_run_time\<close> is set to \<open>0\<close>: with samples of \<open>1/2\<close> and
  \<open>min_run_time = 1\<close> the total exceeds \<open>max_run_time\<close> after the first sample, and the
  loop takes a second one.
\<close>

theorem zero_max_run_time_does_not_end_the_loop:
  "threaded_measurement_loop (+) 1 (const_timeit (1/2) 1) blocked_stop_hook 1 (Some 0) None ()
     = Some ([1/2, 1/2], (),
             [TimeHookCall (1/2), StopHookCall [1/2] True,
              TimeHookCall (1/2), StopHookCall [1/2, 1/2] True])
   \<and> (0::real) < sum_list [1/2]"
  by (simp add: threaded_measurement_loop_def measurement_while.simps const_timeit_def
        blocked_stop_hook_def)

text \<open>
  C6, as the code has it: the stop-hook is called once after every sample, also while the
  total is below \<open>min_run_time\<close>: in a returning run it has been called as often as the
  time-hook, and for a stop-hook that leaves the list as it is the arguments of its calls
  are the non-empty prefixes of the returned samples, in order. Its answer ends the loop
  only once the floor is met: a run that returns has reached \<open>min_run_time\<close>, or has
  exceeded a \<open>max_run_time\<close> other than \<open>0\<close>.
\<close>

theorem stop_hook_called_after_every_sample:
  assumes "threaded_measurement_loop fa number th sh mn mx cb w = Some (ts, w', tr)"
  shows "length (stop_hook_args tr) = length (time_hook_results tr)
         \<and> (mn \<le> foldl fa 0 (time_hook_results tr)
              \<or> (\<exists>m. mx = Some m \<and> m \<noteq> 0 \<and> m < foldl fa 0 (time_hook_results tr)))
         \<and> (keeps_list sh \<longrightarrow>
              stop_hook_args tr = tl (prefixes ts)
              \<and> (mn \<le> foldl fa 0 ts \<or> (\<exists>m. mx = Some m \<and> m \<noteq> 0 \<and> m < foldl fa 0 ts)))
         \<and> (keeps_list sh \<and> fa = (+) \<longrightarrow>
              stop_hook_args tr = tl (prefixes ts)
              \<and> (mn \<le> sum_list ts \<or> (\<exists>m. mx = Some m \<and> m \<noteq> 0 \<and> m < sum_list ts)))"
proof (intro conjI)
  from threaded_run[OF assms] obtain tot' cs' where
    mw: "measurement_while fa number th sh mn mx cb 0 False [] w [] = Some (tot', cs', ts, w', tr)"
    by blast
  from measurement_while_calls[OF mw]
  show "length (stop_hook_args tr) = length (time_hook_results tr)" by simp
  from threaded_exit[OF assms]
  show "mn \<le> foldl fa 0 (time_hook_results tr)
              \<or> (\<exists>m. mx = Some m \<and> m \<noteq> 0 \<and> m < foldl fa 0 (time_hook_results tr))"
    by blast
  show "keeps_list sh \<longrightarrow>
              stop_hook_args tr = tl (prefixes ts)
              \<and> (mn \<le> foldl fa 0 ts \<or> (\<exists>m. mx = Some m \<and> m \<noteq> 0 \<and> m < foldl fa 0 ts))"
    using threaded_keeps[OF assms] by blast
  show "keeps_list sh \<and> fa = (+) \<longrightarrow>
              stop_hook_args tr = tl (prefixes ts)
              \<and> (mn \<le> sum_list ts \<or> (\<exists>m. mx = Some m \<and> m \<noteq> 0 \<and> m < sum_list ts))"
  proof
    assume a: "keeps_list sh \<and> fa = (+)"
    with threaded_keeps[OF assms] show "stop_hook_args tr = tl (prefixes ts)
              \<and> (mn \<le> sum_list ts \<or> (\<exists>m. mx = Some m \<and> m \<noteq> 0 \<and> m < sum_list ts))"
      by (auto simp: foldl_plus_sum_list)
  qed
qed

text \<open>The theorem at the run that the ceiling ends.\<close>

theorem stop_hook_called_after_every_sample_witness:
  "threaded_measurement_loop (+) 1 (const_timeit (1/2) 1) never_stop_hook 1 (Some (1/4)) None ()
     = Some ([1/2], (), [TimeHookCall (1/2), StopHookCall [1/2] False])
   \<and> length (stop_hook_args [TimeHookCall (1/2), StopHookCall [1/2] False])
       = length (time_hook_results [TimeHookCall (1/2), StopHookCall [1/2] False])
   \<and> keeps_list (never_stop_hook :: real list \<Rightarrow> unit \<Rightarrow> bool \<times> real list \<times> unit)
   \<and> stop_hook_args [TimeHookCall (1/2), StopHookCall [1/2] False] = tl (prefixes [1/2])
   \<and> ((1::real) \<le> sum_list [1/2]
        \<or> (\<exists>m. Some (1/4) = Some m \<and> m \<noteq> 0 \<and> m < sum_list [1/2::real]))"
proof -
  have k: "keeps_list (never_stop_hook :: real list \<Rightarrow> unit \<Rightarrow> bool \<times> real list \<times> unit)"
    by (rule keeps_list_hooks)
  from stop_hook_called_after_every_sample[OF run_half_ceiling] run_half_ceiling k
  show ?thesis by simp
qed

text \<open>
  C6 as stated fails: with samples of \<open>1/2\<close> and \<open>min_run_time = 1\<close> the floor is reached
  with the second sample, and the stop-hook has been called on the first sample alone, whose
  total is below the floor.
\<close>

theorem stop_hook_called_below_the_floor:
  "threaded_measurement_loop (+) 1 (const_timeit (1/2) 1) blocked_stop_hook 1 None None ()
     = Some ([1/2, 1/2], (),
             [TimeHookCall (1/2), StopHookCall [1/2] True,
              TimeHookCall (1/2), StopHookCall [1/2, 1/2] True])
   \<and> sum_list [1/2] < (1::real)"
  by (simp add: threaded_measurement_loop_def measurement_while.simps const_timeit_def
        blocked_stop_hook_def)





text \<open>
  C8: with a time-hook that returns the constant duration \<open>0.01\<close>, \<open>number = 1\<close>,
  \<open>min_run_time = 0.2\<close>, no \<open>max_run_time\<close> and the stop-hook that is always true, the
  measurement loop returns exactly \<open>20\<close> samples of \<open>0.01\<close>; and \<open>blocked_autorange\<close> with
  the estimator stubbed to \<open>number = 1\<close> returns a Measurement of these \<open>20\<close> samples with
  \<open>number_per_run = 1\<close>. (Durations are added exactly here: the sum of nineteen samples is
  below \<open>0.2\<close> and the sum of twenty is not.)
\<close>

theorem constant_hook_twenty_samples:
  "map_option fst (threaded_measurement_loop (+) 1 (const_timeit (1/100) 1) blocked_stop_hook
      (2/10) None None ()) = Some (replicate 20 (1/100))
   \<and> blocked_autorange_with (+) (stub_estimate 1 c) self (const_timeit (1/100)) None (2/10) ()
       = Some (Inr (set_cache_speedup c (construct_measurement self 1 (replicate 20 (1/100)))),
               ())
   \<and> number_per_run
       (set_cache_speedup c (construct_measurement self 1 (replicate 20 (1/100)))) = 1
   \<and> length (times_m
       (set_cache_speedup c (construct_measurement self 1 (replicate 20 (1/100))))) = 20"
  by (simp add: threaded_measurement_loop_def measurement_while.simps const_timeit_def
        blocked_stop_hook_def blocked_autorange_with_def stub_estimate_def
        set_cache_speedup_def construct_measurement_def eval_nat_numeral)

subsection \<open>Block size estimation\<close>

text \<open>
  For a timed callable without effects the five overhead samples are equal, and the
  estimator is its loop started at \<open>number = 1\<close>. With \<open>check_cache_speedup\<close> on, the loop
  ends at the latest when \<open>number\<close> no longer converts to a float.
\<close>

lemma const_timeit_det: "const_timeit d = det_timeit (\<lambda>n. d)"
  by (simp add: const_timeit_def det_timeit_def fun_eq_iff)

lemma timeit_repeat_det: "timeit_repeat (det_timeit tt) k n w = (replicate k (tt n), w)"
  by (induction k) (simp_all add: det_timeit_def)

lemma median_five: "median (replicate 5 x) = x"
proof -
  have "sort (replicate 5 x) = replicate 5 x"
    by (simp add: sorted_sort_id)
  then show ?thesis by (simp add: median_def)
qed

lemma estimate_block_size_det:
  "estimate_block_size (det_timeit tt) mn chk w =
     estimate_while (det_timeit tt) mn chk (tt 0) (if chk then tt 1 else 0) 1 0 w"
  by (simp add: estimate_block_size_def timeit_repeat_det median_five measure_uncached_runtime_def
        det_timeit_def)

lemma float_max_int_bounds: "10 ^ 308 < float_max_int" "float_max_int \<le> 10 ^ 309"
  "1 < float_max_int"
  by (simp_all add: float_max_int_def)

lemma float_tiny_pos: "0 < float_tiny"
  by (simp add: float_tiny_def)

lemma float_max_int_tiny: "real_of_int float_max_int * float_tiny < 1 / 2 ^ 51"
  by (simp add: float_max_int_def float_tiny_def)

lemma py_div_int_one: "py_div_int x 1 = Inr x"
  using float_max_int_bounds(3) by (simp add: py_div_int_def)

lemma py_div_int_no_underflow:
  assumes "1 \<le> n" and "n < float_max_int" and "of_int n * float_tiny < x"
  shows "py_div_int x n = Inr (x / of_int n)" and "x / of_int n \<noteq> 0"
proof -
  from assms(1) have n: "0 < real_of_int n" by simp
  from assms(3) n have "float_tiny < x / of_int n"
    by (simp add: field_simps)
  then have q: "float_tiny < x / of_int n" .
  have "x / of_int n \<le> \<bar>x / of_int n\<bar>" by (rule abs_ge_self)
  with q have a: "\<not> \<bar>x / of_int n\<bar> \<le> float_tiny" by linarith
  from q float_tiny_pos have b: "x / of_int n \<noteq> 0" by linarith
  from assms(1,2) a show "py_div_int x n = Inr (x / of_int n)"
    by (simp add: py_div_int_def)
  from b show "x / of_int n \<noteq> 0" .
qed

lemma no_underflow_above:
  assumes "1 \<le> n" and "n < float_max_int" and "1 / 2 ^ 51 \<le> x"
  shows "of_int n * float_tiny < x"
proof -
  from assms(2) have "real_of_int n < real_of_int float_max_int" by simp
  with float_tiny_pos have "of_int n * float_tiny < real_of_int float_max_int * float_tiny"
    by simp
  with float_max_int_tiny assms(3) show ?thesis by linarith
qed

lemma estimate_while_det:
  "estimate_while (det_timeit tt) mn chk ov un number cs w =
     (case (if chk
            then (case py_div_int (tt number) number of
                    Inl e \<Rightarrow> Inl e
                  | Inr per_call \<Rightarrow> py_div un per_call)
            else Inr cs) of
        Inl e \<Rightarrow> Some (Inl e, w)
      | Inr cs1 \<Rightarrow>
          if np_le (np_div ov (tt number)) (1 / 10000) \<and> tt number \<ge> mn / 1000
          then Some (Inr (number, cs1), w)
          else if tt number > mn
          then Some (Inr (number, cs1), w)
          else estimate_while (det_timeit tt) mn chk ov un (number * 10) cs1 w)"
  by (subst estimate_while.simps) (simp add: det_timeit_def)

lemma estimate_while_check_on_returns:
  "1 \<le> number \<Longrightarrow> estimate_while tm mn True ov un number cs w \<noteq> None"
proof (induction "nat (float_max_int - number)" arbitrary: number cs w rule: less_induct)
  case less
  show ?case
  proof (cases "float_max_int \<le> number")
    case True
    with less.prems have "py_div_int t number = Inl OverflowError" for t
      by (simp add: py_div_int_def)
    then show ?thesis
      by (subst estimate_while.simps) (simp split: prod.splits)
  next
    case False
    with less.prems have "nat (float_max_int - number * 10) < nat (float_max_int - number)"
      by simp
    then have IH: "\<exists>a b. estimate_while tm mn True ov un (number * 10) cs' w' = Some (a, b)"
      for cs' w'
      using less.hyps[of "number * 10" cs' w'] less.prems by auto
    show ?thesis
      by (subst estimate_while.simps) (simp add: IH split: prod.splits sum.splits)
  qed
qed

lemma estimate_while_const_overflows:
  "1 \<le> number \<Longrightarrow> 1 / 2 ^ 51 \<le> d \<Longrightarrow> d \<le> mn \<Longrightarrow>
   estimate_while (const_timeit d) mn True d un number cs w = Some (Inl OverflowError, w)"
proof (induction "nat (float_max_int - number)" arbitrary: number cs rule: less_induct)
  case less
  have dpos: "0 < d" using less.prems(2) by (rule less_le_trans[rotated]) simp
  show ?case
  proof (cases "float_max_int \<le> number")
    case True
    with less.prems(1) have "py_div_int d number = Inl OverflowError"
      by (simp add: py_div_int_def)
    then show ?thesis
      by (subst const_timeit_det, subst estimate_while_det) simp
  next
    case False
    with less.prems have "nat (float_max_int - number * 10) < nat (float_max_int - number)"
      by simp
    from less.hyps[OF this] less.prems
    have IH: "estimate_while (const_timeit d) mn True d un (number * 10) cs' w
                = Some (Inl OverflowError, w)" for cs'
      by simp
    from False have lt: "number < float_max_int" by simp
    note nu = py_div_int_no_underflow[OF less.prems(1) lt
        no_underflow_above[OF less.prems(1) lt less.prems(2)]]
    from less.prems(1) have nz: "number \<noteq> 0" by simp
    from dpos less.prems(3) nz show ?thesis
      apply (subst const_timeit_det, subst estimate_while_det)
      apply (simp add: nu py_div_def np_div_def np_le_def IH[unfolded const_timeit_det])
      done
  qed
qed




lemma estimate_while_zero_diverges_aux:
  assumes "estimate_while tm mn chk ov un number cs w = Some r"
  shows "tm = const_timeit 0 \<longrightarrow> 0 \<le> mn \<longrightarrow> \<not> chk \<longrightarrow> ov = 0 \<longrightarrow> False"
  by (rule estimate_while.raw_induct[where P = "\<lambda>tm mn chk ov un number cs w r.
        tm = const_timeit 0 \<longrightarrow> 0 \<le> mn \<longrightarrow> \<not> chk \<longrightarrow> ov = 0 \<longrightarrow> False", OF _ assms])
     (auto split: prod.splits sum.splits if_splits simp: const_timeit_def np_div_def np_le_def)

lemma estimate_while_zero_diverges:
  "0 \<le> mn \<Longrightarrow> estimate_while (const_timeit 0) mn False 0 un number cs w = None"
  using estimate_while_zero_diverges_aux[of "const_timeit 0" mn False 0 un number cs w]
  by (cases "estimate_while (const_timeit 0) mn False 0 un number cs w") auto

lemma estimate_while_const_diverges_aux:
  assumes "estimate_while tm mn chk ov un number cs w = Some r"
  shows "tm = const_timeit d \<longrightarrow> 0 < d \<longrightarrow> d \<le> mn \<longrightarrow> \<not> chk \<longrightarrow> ov = d \<longrightarrow> False"
  by (rule estimate_while.raw_induct[where P = "\<lambda>tm mn chk ov un number cs w r.
        tm = const_timeit d \<longrightarrow> 0 < d \<longrightarrow> d \<le> mn \<longrightarrow> \<not> chk \<longrightarrow> ov = d \<longrightarrow> False", OF _ assms])
     (auto split: prod.splits sum.splits if_splits simp: const_timeit_def np_div_def np_le_def)

lemma estimate_while_const_diverges:
  "0 < d \<Longrightarrow> d \<le> mn \<Longrightarrow> estimate_while (const_timeit d) mn False d un number cs w = None"
  using estimate_while_const_diverges_aux[of "const_timeit d" mn False d un number cs w _ d]
  by (cases "estimate_while (const_timeit d) mn False d un number cs w") auto

lemma estimate_while_terminates:
  "mn < tt (number * 10 ^ k) \<Longrightarrow>
   estimate_while (det_timeit tt) mn chk ov un number cs w \<noteq> None"
proof (induction k arbitrary: number cs)
  case 0
  then show ?case
    by (subst estimate_while_det) (simp split: sum.splits)
next
  case (Suc k)
  then have "mn < tt (number * 10 * 10 ^ k)" by (simp add: mult.assoc)
  from Suc.IH[OF this] show ?case
    apply (subst estimate_while_det)
    apply (cases chk)
     apply (simp_all split: sum.splits)
    done
qed


text \<open>
  C2, as the code has it: the estimation loop enforces no bound on the number of its
  growth steps. With \<open>check_cache_speedup\<close> on, as in both callers, it ends for every
  timed callable, by a return or by a raise: the division \<open>time_taken / number\<close> raises
  \<open>OverflowError\<close> once \<open>number\<close> no longer converts to a float, from \<open>10 ^ 309\<close> on. For a
  timed callable whose time depends on the repeat count only, the loop is sure to end,
  with the check on or off, if the time of some candidate \<open>1, 10, 100, ...\<close> exceeds
  \<open>min_run_time\<close>. With \<open>check_cache_speedup\<close> off it does not end for every behaviour of
  the timed callable: when the time is a constant above \<open>0\<close> and not above
  \<open>min_run_time\<close>, whatever the repeat count, no exit test is ever met and the loop
  multiplies \<open>number\<close> by ten for ever. With the check on, the same timed callable (its
  constant at least \<open>2 ^ -51\<close>, so that no quotient rounds to \<open>0\<close>) makes the estimator
  raise \<open>OverflowError\<close>.
\<close>

theorem estimate_block_size_termination:
  "(\<exists>r. estimate_block_size tm mn True w = Some r)
   \<and> ((\<exists>k. mn < tt (10 ^ k)) \<longrightarrow>
        (\<exists>r. estimate_block_size (det_timeit tt) mn chk w0 = Some r))
   \<and> (0 < d \<and> d \<le> mn \<longrightarrow> estimate_block_size (const_timeit d) mn False w0 = None)
   \<and> (1 / 2 ^ 51 \<le> d \<and> d \<le> mn \<longrightarrow>
        estimate_block_size (const_timeit d) mn True w0 = Some (Inl OverflowError, w0))"
proof (intro conjI impI)
  have "estimate_while tm mn True ov un 1 0 w2 \<noteq> None" for ov un w2
    by (rule estimate_while_check_on_returns) simp
  then show "\<exists>r. estimate_block_size tm mn True w = Some r"
    by (simp add: estimate_block_size_def split: prod.splits)
next
  assume "\<exists>k. mn < tt (10 ^ k)"
  then obtain k where "mn < tt (1 * 10 ^ k)" by auto
  from estimate_while_terminates[of mn tt 1 k chk "tt 0" "if chk then tt 1 else 0" 0 w0] this
  show "\<exists>r. estimate_block_size (det_timeit tt) mn chk w0 = Some r"
    by (simp add: estimate_block_size_det)
next
  assume "0 < d \<and> d \<le> mn"
  then show "estimate_block_size (const_timeit d) mn False w0 = None"
    using estimate_while_const_diverges[of d mn 0 1 0 w0]
    by (simp add: estimate_block_size_det[of "\<lambda>n. d", folded const_timeit_det])
next
  assume "1 / 2 ^ 51 \<le> d \<and> d \<le> mn"
  then show "estimate_block_size (const_timeit d) mn True w0 = Some (Inl OverflowError, w0)"
    using estimate_while_const_overflows[of 1 d mn d 0 w0]
    by (simp add: estimate_block_size_det[of "\<lambda>n. d", folded const_timeit_det])
qed

text \<open>
  The theorem at \<open>min_run_time = 0.2\<close>: a timed callable that takes \<open>0.001\<close> per repeat
  exceeds it at the candidate \<open>1000\<close>, and one that takes \<open>0.01\<close> whatever the repeat
  count never does.
\<close>

theorem estimate_block_size_termination_witness:
  "(\<exists>r. estimate_block_size (det_timeit (linear_time (1/1000))) (2/10) True () = Some r)
   \<and> (\<exists>k. (2/10) < linear_time (1/1000) (10 ^ k))
   \<and> (\<exists>r. estimate_block_size (det_timeit (linear_time (1/1000))) (2/10) False () = Some r)
   \<and> ((0::real) < 1/100 \<and> (1/100::real) \<le> 2/10)
   \<and> estimate_block_size (const_timeit (1/100)) (2/10) False () = None
   \<and> ((1::real) / 2 ^ 51 \<le> 1/100 \<and> (1/100::real) \<le> 2/10)
   \<and> estimate_block_size (const_timeit (1/100)) (2/10) True ()
        = Some (Inl OverflowError, ())"
proof -
  have h: "\<exists>k. (2/10) < linear_time (1/1000) (10 ^ k)"
    by (rule exI[of _ 3]) (simp add: linear_time_def)
  from estimate_block_size_termination[where tm = "det_timeit (linear_time (1/1000))"
      and tt = "linear_time (1/1000)" and mn = "2/10"
      and chk = False and w = "()" and ?w0.0 = "()" and d = "1/100"] h
  show ?thesis by simp
qed

text \<open>
  C2 as stated fails: when every timing is \<open>0\<close> and \<open>min_run_time = 0.2\<close>, the estimator
  divides by zero and raises with \<open>check_cache_speedup\<close> on, and with it off the loop
  never returns; no bound stops it.
\<close>

theorem estimate_block_size_zero_timings:
  "estimate_block_size (const_timeit 0) (2/10) True () = Some (Inl ZeroDivisionError, ())
   \<and> estimate_block_size (const_timeit 0) (2/10) False () = None"
proof (rule conjI)
  show "estimate_block_size (const_timeit 0) (2/10) True () = Some (Inl ZeroDivisionError, ())"
    by (simp add: const_timeit_det estimate_block_size_det estimate_while_det py_div_int_one
          py_div_def)
next
  show "estimate_block_size (const_timeit 0) (2/10) False () = None"
    using estimate_while_zero_diverges[of "2/10" 0 1 0 "()"]
    by (simp add: const_timeit_det estimate_block_size_det)
qed

text \<open>
  C4, as the code has it: if the measured overhead is exactly \<open>0\<close> and the time taken is
  not \<open>0\<close>, then \<open>relative_overhead\<close> is computed without a fault and equals \<open>0\<close>, which
  meets the threshold \<open>1e-4\<close>; and the loop exits at \<open>number = 1\<close> provided the time taken
  by one repeat is not \<open>0\<close> and is at least \<open>min_run_time / 1000\<close>. The second conjunct is
  about the loop for any timed callable, the third about the whole estimator for a timed
  callable whose time depends on the repeat count only.
\<close>

theorem zero_overhead_exit_at_one:
  "(time_taken \<noteq> 0 \<longrightarrow>
      np_div 0 time_taken = Finite 0 \<and> np_le (np_div 0 time_taken) (1 / 10000))
   \<and> (fst (tm 1 w) \<noteq> 0 \<and> mn / 1000 \<le> fst (tm 1 w) \<longrightarrow>
        (\<exists>c. estimate_while tm mn chk 0 un 1 cs w = Some (Inr (1, c), snd (tm 1 w))))
   \<and> (tt 0 = 0 \<and> tt 1 \<noteq> 0 \<and> mn / 1000 \<le> tt 1 \<longrightarrow>
        estimate_block_size (det_timeit tt) mn chk w0
          = Some (Inr (1, if chk then 1 else 0), w0))"
proof (intro conjI impI)
  assume "time_taken \<noteq> 0"
  then show "np_div 0 time_taken = Finite 0" by (simp add: np_div_def)
next
  assume "time_taken \<noteq> 0"
  then show "np_le (np_div 0 time_taken) (1 / 10000)" by (simp add: np_div_def np_le_def)
next
  assume a: "fst (tm 1 w) \<noteq> 0 \<and> mn / 1000 \<le> fst (tm 1 w)"
  then show "\<exists>c. estimate_while tm mn chk 0 un 1 cs w = Some (Inr (1, c), snd (tm 1 w))"
    by (subst estimate_while.simps)
       (auto simp: py_div_int_one py_div_def np_div_def np_le_def split: prod.splits)
next
  assume a: "tt 0 = 0 \<and> tt 1 \<noteq> 0 \<and> mn / 1000 \<le> tt 1"
  then show "estimate_block_size (det_timeit tt) mn chk w0
          = Some (Inr (1, if chk then 1 else 0), w0)"
    by (simp add: estimate_block_size_det estimate_while_det py_div_int_one py_div_def
          np_div_def np_le_def)
qed

text \<open>The theorem at a timed callable that takes \<open>0.001\<close> per repeat.\<close>

theorem zero_overhead_exit_at_one_witness:
  "(1/1000::real) \<noteq> 0
   \<and> np_div 0 (1/1000) = Finite 0 \<and> np_le (np_div 0 (1/1000)) (1 / 10000)
   \<and> (fst (det_timeit (linear_time (1/1000)) 1 ()) \<noteq> 0
        \<and> (2/10) / 1000 \<le> fst (det_timeit (linear_time (1/1000)) 1 ()))
   \<and> (\<exists>c. estimate_while (det_timeit (linear_time (1/1000))) (2/10) True 0 (1/1000) 1 0 ()
          = Some (Inr (1, c), snd (det_timeit (linear_time (1/1000)) 1 ())))
   \<and> (linear_time (1/1000) 0 = 0 \<and> linear_time (1/1000) 1 \<noteq> 0
        \<and> (2/10) / 1000 \<le> linear_time (1/1000) 1)
   \<and> estimate_block_size (det_timeit (linear_time (1/1000))) (2/10) True ()
       = Some (Inr (1, if True then 1 else 0), ())"
  using zero_overhead_exit_at_one[where time_taken = "1/1000"
      and tm = "det_timeit (linear_time (1/1000))" and w = "()" and mn = "2/10" and chk = True
      and un = "1/1000" and cs = 0 and tt = "linear_time (1/1000)" and ?w0.0 = "()"]
  by (simp add: det_timeit_def linear_time_def np_le_def)

text \<open>
  C4 as stated fails when the time taken is \<open>0\<close> as well: with an overhead of \<open>0\<close>, a time
  of \<open>0\<close> for one repeat and \<open>min_run_time = 0\<close> (so that the floor \<open>min_run_time / 1000\<close>
  is met), \<open>relative_overhead\<close> is NaN and not \<open>0\<close>, it does not meet the threshold, and
  the estimator (here with \<open>check_cache_speedup\<close> off) does not exit at \<open>number = 1\<close>: it
  returns \<open>10\<close>.
\<close>

theorem zero_overhead_zero_time_no_exit_at_one:
  "zero_then_one 0 = 0 \<and> (0::real) / 1000 \<le> zero_then_one 1
   \<and> np_div (zero_then_one 0) (zero_then_one 1) = NaN
   \<and> \<not> np_le (np_div (zero_then_one 0) (zero_then_one 1)) (1 / 10000)
   \<and> estimate_block_size (det_timeit zero_then_one) 0 False () = Some (Inr (10, 0), ())"
  by (simp add: estimate_block_size_det estimate_while_det py_div_def np_div_def np_le_def
        zero_then_one_def)




subsection \<open>The environment mapping at construction\<close>

lemma Timer_init_Inr:
  assumes "Timer_init (PyStr s) (Some g) label sub_label description env num_threads torch h
             = Inr (self, h')"
  shows "\<exists>kvs. g < length h \<and> h ! g = PyDict kvs
           \<and> self_globals self = length h
           \<and> h' = h @ [PyDict (if map_of kvs ''torch'' = None
                                then AList.update ''torch'' torch kvs else kvs)]"
  using assms
  by (auto simp: Timer_init_def dict_items_def alloc_def dict_setdefault_def dict_get_def
        dict_setitem_def nth_append
      split: if_splits pyobj.splits option.splits sum.splits)

lemma example_init:
  "Timer_init (PyStr ''pass'') (Some 1) None None None None 1 2 example_heap
     = Inr (example_timer, example_heap @ [PyDict [(''x'', 0), (''torch'', 2)]])"
  by (simp add: Timer_init_def example_heap_def example_timer_def dict_items_def alloc_def
        dict_setdefault_def dict_get_def dict_setitem_def nth_append)

text \<open>
  C7, as the code has it: at construction the caller's mapping is copied one level deep
  (\<open>dict(globals or {})\<close>). The Timer's mapping is a new object, construction changes no
  object that existed before, and the new mapping binds the caller's names to the same
  references (and \<open>torch\<close> if the caller did not bind it). Binding a name in the Timer's
  mapping is not visible in the caller's mapping, and binding a name in the caller's
  mapping is not visible in the Timer's. The objects that the names refer to are shared.
\<close>

theorem timer_init_copies_the_mapping_only:
  assumes "Timer_init (PyStr s) (Some g) label sub_label description env num_threads torch h
             = Inr (self, h')"
  shows "self_globals self \<noteq> g
         \<and> (\<forall>a<length h. h' ! a = h ! a)
         \<and> (\<forall>k. dict_get h' (self_globals self) k
                  = (if k = ''torch'' \<and> dict_get h g k = None then Some torch
                     else dict_get h g k))
         \<and> (\<forall>k v. dict_get (dict_setitem (self_globals self) k v h') g = dict_get h g)
         \<and> (\<forall>k v. dict_get (dict_setitem g k v h') (self_globals self)
                    = dict_get h' (self_globals self))"
proof -
  from Timer_init_Inr[OF assms] obtain kvs where
    g: "g < length h" and hg: "h ! g = PyDict kvs" and sg: "self_globals self = length h"
    and h': "h' = h @ [PyDict (if map_of kvs ''torch'' = None
                                then AList.update ''torch'' torch kvs else kvs)]"
    by blast
  show ?thesis
    using g hg sg h'
    by (auto simp: dict_get_def dict_items_def dict_setitem_def nth_append update_conv'
          nth_list_update split: if_splits pyobj.splits)
qed

theorem timer_init_copies_the_mapping_only_witness:
  "Timer_init (PyStr ''pass'') (Some 1) None None None None 1 2 example_heap
     = Inr (example_timer, example_heap @ [PyDict [(''x'', 0), (''torch'', 2)]])
   \<and> self_globals example_timer \<noteq> 1
   \<and> (example_heap @ [PyDict [(''x'', 0), (''torch'', 2)]]) ! 1 = example_heap ! 1
   \<and> dict_get (example_heap @ [PyDict [(''x'', 0), (''torch'', 2)]])
        (self_globals example_timer) ''x'' = dict_get example_heap 1 ''x''
   \<and> dict_get (dict_setitem (self_globals example_timer) ''x'' 2
                 (example_heap @ [PyDict [(''x'', 0), (''torch'', 2)]])) 1 ''x'' = Some 0
   \<and> dict_get (dict_setitem 1 ''x'' 2
                 (example_heap @ [PyDict [(''x'', 0), (''torch'', 2)]]))
        (self_globals example_timer) ''x'' = Some 0"
  using timer_init_copies_the_mapping_only[OF example_init] example_init
  by (simp add: example_heap_def example_timer_def dict_get_def dict_items_def nth_append)

text \<open>
  C7 as stated fails: the copy is not deep. The caller's mapping binds \<open>x\<close> to a list; the
  Timer's mapping binds \<open>x\<close> to the same list object; appending to the list reached
  through the Timer's mapping changes the object that the caller's mapping refers to.
\<close>

theorem mutation_through_the_copy_is_visible:
  "Timer_init (PyStr ''pass'') (Some 1) None None None None 1 2 example_heap
     = Inr (example_timer, example_heap @ [PyDict [(''x'', 0), (''torch'', 2)]])
   \<and> dict_get example_heap 1 ''x'' = Some 0
   \<and> dict_get (example_heap @ [PyDict [(''x'', 0), (''torch'', 2)]])
        (self_globals example_timer) ''x'' = Some 0
   \<and> example_heap ! 0 = PyList []
   \<and> list_append 0 2 (example_heap @ [PyDict [(''x'', 0), (''torch'', 2)]]) ! 0 = PyList [2]
   \<and> dict_get (list_append 0 2 (example_heap @ [PyDict [(''x'', 0), (''torch'', 2)]])) 1 ''x''
       = Some 0"
  using example_init
  by (simp add: example_heap_def example_timer_def dict_get_def dict_items_def list_append_def
        nth_append)

end
